theory Spec2Isabelle
  imports Complex_Main
begin

section \<open>JavaScript values, exceptions and JSON\<close>

text \<open>
  The program is TypeScript: its types are erased before it runs, and what flows through
  \<open>JSON.parse\<close>, the component state and local storage are untyped JavaScript values.
  A number is an IEEE double; the model keeps the finite ones as reals (so \<open>-0\<close> is
  \<open>0\<close>, as \<open>===\<close> has it) and the three special values apart.
\<close>

datatype jsnumber = Finite real | NaN | PosInfinity | NegInfinity

datatype jsval =
    JSUndefined
  | JSNull
  | JSBool bool
  | JSNumber jsnumber
  | JSString string
  | JSArray "jsval list"
  | JSObject "(string \<times> jsval) list"

text \<open>What a \<open>throw\<close> carries: an \<open>Error\<close> with its message, the two built-in errors the
  program can provoke, whatever a rejected request rejects with, and whatever a render
  that fails throws.\<close>

datatype exn = Error string | TypeError | SyntaxError | Rejection | RenderError

definition and_then :: "exn + 'a \<Rightarrow> ('a \<Rightarrow> exn + 'b) \<Rightarrow> exn + 'b" where
  "and_then m f = (case m of Inl e \<Rightarrow> Inl e | Inr x \<Rightarrow> f x)"

text \<open>
  A JSON document, and a string as far as this program looks at one: it only tests a
  string for emptiness and hands it to \<open>JSON.parse\<close>. \<open>JSONText d\<close> is any (non-empty)
  string that \<open>JSON.parse\<close> reads as the document \<open>d\<close>, \<open>OtherText\<close> any non-empty string
  that it rejects. A number of a document is the double its literal denotes;
  \<open>JHugeNumber\<close> is a literal beyond the range of the doubles, such as \<open>1e999\<close> (\<open>True\<close>)
  or \<open>-1e999\<close> (\<open>False\<close>), which \<open>JSON.parse\<close> reads as an infinity.
\<close>

datatype json =
    JNull
  | JBool bool
  | JNumber real
  | JHugeNumber bool
  | JString string
  | JArray "json list"
  | JObject "(string \<times> json) list"

datatype jstext = EmptyText | JSONText json | OtherText

text \<open>
  The own properties of an object are kept in the order they were created in. Storing a
  property replaces the value of an existing key in place and appends a new key.
  \<open>JSON.parse\<close> builds an object by storing its members in order, so a repeated key keeps
  its first position and takes the last value. (JavaScript enumerates keys that are array
  indices before the others; no claim here depends on the order of such keys.)
\<close>

fun define_prop :: "string \<Rightarrow> 'v \<Rightarrow> (string \<times> 'v) list \<Rightarrow> (string \<times> 'v) list" where
  "define_prop k v [] = [(k, v)]"
| "define_prop k v (p # ps) =
     (if fst p = k then (k, v) # ps else p # define_prop k v ps)"

fun from_json :: "json \<Rightarrow> jsval"
  and from_json_list :: "json list \<Rightarrow> jsval list"
  and from_json_props :: "(string \<times> json) list \<Rightarrow> (string \<times> jsval) list \<Rightarrow> (string \<times> jsval) list"
where
  "from_json JNull = JSNull"
| "from_json (JBool b) = JSBool b"
| "from_json (JNumber x) = JSNumber (Finite x)"
| "from_json (JHugeNumber positive) = JSNumber (if positive then PosInfinity else NegInfinity)"
| "from_json (JString s) = JSString s"
| "from_json (JArray ds) = JSArray (from_json_list ds)"
| "from_json (JObject ms) = JSObject (from_json_props ms [])"
| "from_json_list [] = []"
| "from_json_list (d # ds) = from_json d # from_json_list ds"
| "from_json_props [] acc = acc"
| "from_json_props (m # ms) acc = from_json_props ms (define_prop (fst m) (from_json (snd m)) acc)"

definition JSON_parse :: "jstext \<Rightarrow> exn + jsval" where
  "JSON_parse t = (case t of JSONText d \<Rightarrow> Inr (from_json d) | _ \<Rightarrow> Inl SyntaxError)"

text \<open>
  \<open>JSON.stringify\<close>: \<open>undefined\<close> has no JSON form (\<open>None\<close>); it is left out of an
  object and written \<open>null\<close> in an array. \<open>NaN\<close> and the infinities are written \<open>null\<close>.
\<close>

fun to_json :: "jsval \<Rightarrow> json option"
  and to_json_list :: "jsval list \<Rightarrow> json list"
  and to_json_props :: "(string \<times> jsval) list \<Rightarrow> (string \<times> json) list"
where
  "to_json JSUndefined = None"
| "to_json JSNull = Some JNull"
| "to_json (JSBool b) = Some (JBool b)"
| "to_json (JSNumber n) = Some (case n of Finite x \<Rightarrow> JNumber x | _ \<Rightarrow> JNull)"
| "to_json (JSString s) = Some (JString s)"
| "to_json (JSArray vs) = Some (JArray (to_json_list vs))"
| "to_json (JSObject ps) = Some (JObject (to_json_props ps))"
| "to_json_list [] = []"
| "to_json_list (v # vs) = (case to_json v of None \<Rightarrow> JNull | Some d \<Rightarrow> d) # to_json_list vs"
| "to_json_props [] = []"
| "to_json_props (p # ps) =
     (case to_json (snd p) of None \<Rightarrow> [] | Some d \<Rightarrow> [(fst p, d)]) @ to_json_props ps"

definition JSON_stringify :: "jsval \<Rightarrow> jstext option" where
  "JSON_stringify v = map_option JSONText (to_json v)"

text \<open>
  So the two built-ins are modelled up to the text: \<open>JSON.stringify\<close> writes a string
  that \<open>JSON.parse\<close> reads as the document written. What the pair loses is what
  \<open>to_json\<close> loses. The values it keeps are the ones below: no \<open>undefined\<close> inside, every
  number finite, and (as in every object) no key twice.
\<close>

fun is_finite :: "jsnumber \<Rightarrow> bool" where
  "is_finite (Finite x) = True"
| "is_finite n = False"

fun json_clean :: "jsval \<Rightarrow> bool"
  and json_clean_list :: "jsval list \<Rightarrow> bool"
  and json_clean_props :: "(string \<times> jsval) list \<Rightarrow> bool"
where
  "json_clean JSUndefined = False"
| "json_clean JSNull = True"
| "json_clean (JSBool b) = True"
| "json_clean (JSNumber n) = is_finite n"
| "json_clean (JSString s) = True"
| "json_clean (JSArray vs) = json_clean_list vs"
| "json_clean (JSObject ps) = (distinct (List.map fst ps) \<and> json_clean_props ps)"
| "json_clean_list [] = True"
| "json_clean_list (v # vs) = (json_clean v \<and> json_clean_list vs)"
| "json_clean_props [] = True"
| "json_clean_props (p # ps) = (json_clean (snd p) \<and> json_clean_props ps)"

text \<open>
  Reading a property \<open>v.k\<close>. On \<open>undefined\<close> and \<open>null\<close> it throws a \<open>TypeError\<close>; on an
  object it is the own property or \<open>undefined\<close>; on the other values it is \<open>undefined\<close>.
  The program reads only the eight names of its schema on parsed data, and none of
  them is a property of a built-in prototype, so inherited properties are left out here.
\<close>

fun get_prop :: "jsval \<Rightarrow> string \<Rightarrow> exn + jsval" where
  "get_prop JSUndefined k = Inl TypeError"
| "get_prop JSNull k = Inl TypeError"
| "get_prop (JSObject ps) k = Inr (case map_of ps k of None \<Rightarrow> JSUndefined | Some v \<Rightarrow> v)"
| "get_prop v k = Inr JSUndefined"

fun own_keys :: "jsval \<Rightarrow> string list" where
  "own_keys (JSObject ps) = map fst ps"
| "own_keys v = []"

section \<open>The Gemini service: \<open>restaurantSchema\<close> and \<open>analyzeImage\<close>\<close>

datatype Type = STRING | NUMBER | ARRAY | OBJECT

datatype Schema = Schema
  (type: Type)
  (description: "string option")
  (enum: "string list option")
  (items: "Schema option")
  (properties: "(string \<times> Schema) list")
  (required: "string list")

definition leaf :: "Type \<Rightarrow> string \<Rightarrow> Schema" where
  "leaf t d = Schema t (Some d) None None [] []"

definition restaurantSchema :: Schema where
  "restaurantSchema = Schema OBJECT None None None
     [(''name'', leaf STRING ''Name of the restaurant or cafe.''),
      (''country'', Schema STRING (Some ''The country where the place is located.'')
         (Some [''South Korea'', ''Japan'', ''Other'']) None [] []),
      (''city'', leaf STRING ''The major city (e.g., Seoul, Tokyo, Osaka, Busan).''),
      (''district'', leaf STRING ''The specific district or ward (e.g., Gangnam-gu, Shinjuku).''),
      (''description'', leaf STRING
         ''A short 1-sentence summary of what makes this place good based on the image/text.''),
      (''lat'', leaf NUMBER ''Estimated latitude based on the city/district.''),
      (''lng'', leaf NUMBER ''Estimated longitude based on the city/district.''),
      (''tags'', Schema ARRAY (Some ''List of 3 related keywords (e.g., 'Sushi', 'Spicy', 'View').'')
         None (Some (Schema STRING None None None [] [])) [] [])]
     [''name'', ''country'', ''city'', ''district'', ''lat'', ''lng'', ''description'', ''tags'']"

datatype part = InlineData string string | TextPart string

record generation_config =
  responseMimeType :: string
  responseSchema :: Schema
  temperature :: real

record request =
  model :: string
  contents :: "part list"
  config :: generation_config

definition prompt :: string where
  "prompt =
     ''Analyze this screenshot from a social media video (Shorts/Reels). '' @ [CHR 0x0A] @
     ''            Identify the restaurant or food spot. '' @ [CHR 0x0A] @
     ''            Deduce the location (Focus on South Korea or Japan). '' @ [CHR 0x0A] @
     ''            If the text is in Korean or Japanese, translate the location names to English but keep the Name in original script if it's iconic, or English if provided.'' @ [CHR 0x0A] @
     ''            Estimate the Latitude and Longitude for the district/city center so I can place it on a map.''"

definition build_request :: "string \<Rightarrow> request" where
  "build_request base64Image =
     \<lparr>model = ''gemini-2.5-flash'',
      contents = [InlineData ''image/jpeg'' base64Image, TextPart prompt],
      config = \<lparr>responseMimeType = ''application/json'',
                responseSchema = restaurantSchema,
                temperature = 0.4\<rparr>\<rparr>"

text \<open>
  The endpoint is the world: \<open>generateContent\<close> either rejects, or resolves to a response
  whose \<open>text\<close> is a string or \<open>undefined\<close>. The model takes it as a function of the
  request, and threads the list of the requests sent so far.
\<close>

datatype reply = Rejects | Response "jstext option"

definition send :: "(request \<Rightarrow> reply) \<Rightarrow> request \<Rightarrow> request list \<Rightarrow> reply \<times> request list" where
  "send generateContent req sent = (generateContent req, sent @ [req])"

definition failure_message :: string where
  "failure_message = ''Failed to analyze image. Please try a clearer screenshot.''"

text \<open>The object literal of the \<open>return\<close>. Its property reads are evaluated in order;
  each throws when \<open>data\<close> is \<open>null\<close>.\<close>

definition extract_record :: "jsval \<Rightarrow> exn + jsval" where
  "extract_record data =
     and_then (get_prop data ''name'') (\<lambda>name.
     and_then (get_prop data ''country'') (\<lambda>country.
     and_then (get_prop data ''city'') (\<lambda>city.
     and_then (get_prop data ''district'') (\<lambda>district.
     and_then (get_prop data ''description'') (\<lambda>description.
     and_then (get_prop data ''lat'') (\<lambda>lat.
     and_then (get_prop data ''lng'') (\<lambda>lng.
     and_then (get_prop data ''tags'') (\<lambda>tags.
       Inr (JSObject
         [(''name'', name), (''country'', country), (''city'', city), (''district'', district),
          (''description'', description),
          (''coordinates'', JSObject [(''lat'', lat), (''lng'', lng)]),
          (''tags'', tags)])))))))))"

text \<open>The body of the \<open>try\<close>, from the reply on. \<open>!jsonText\<close> holds of \<open>undefined\<close> and of
  the empty string.\<close>

definition try_block :: "reply \<Rightarrow> exn + jsval" where
  "try_block r =
     (case r of
        Rejects \<Rightarrow> Inl Rejection
      | Response jsonText \<Rightarrow>
          (case jsonText of
             None \<Rightarrow> Inl (Error ''No data returned from Gemini'')
           | Some t \<Rightarrow>
               if t = EmptyText then Inl (Error ''No data returned from Gemini'')
               else and_then (JSON_parse t) extract_record))"

text \<open>The \<open>catch\<close> turns whatever was thrown into the one \<open>Error\<close> (and logs it to the
  console, which the model leaves out).\<close>

definition analyzeImage ::
  "(request \<Rightarrow> reply) \<Rightarrow> string \<Rightarrow> request list \<Rightarrow> (exn + jsval) \<times> request list" where
  "analyzeImage generateContent base64Image sent =
     (case send generateContent (build_request base64Image) sent of
        (response, sent') \<Rightarrow>
          (case try_block response of
             Inl error \<Rightarrow> Inl (Error failure_message)
           | Inr r \<Rightarrow> Inr r,
           sent'))"

section \<open>The typed records of \<open>types.ts\<close>\<close>

datatype Country = KR | JP | OTHER

fun Country_value :: "Country \<Rightarrow> string" where
  "Country_value KR = ''South Korea''"
| "Country_value JP = ''Japan''"
| "Country_value OTHER = ''Other''"

record Coordinates =
  lat :: jsnumber
  lng :: jsnumber

record Restaurant =
  id' :: string
  name :: string
  country :: Country
  city :: string
  district :: string
  description' :: string
  coordinates :: Coordinates
  tags :: "string list"
  originalImage :: string
  createdAt :: jsnumber

text \<open>
  The object a \<open>Restaurant\<close> is at run time. \<open>AddPlaceModal\<close> builds it as
  \<open>{id, ...result, originalImage, createdAt}\<close>, which fixes the order of its properties.
\<close>

definition js_of_Coordinates :: "Coordinates \<Rightarrow> jsval" where
  "js_of_Coordinates c = JSObject [(''lat'', JSNumber (lat c)), (''lng'', JSNumber (lng c))]"

definition js_of_Restaurant :: "Restaurant \<Rightarrow> jsval" where
  "js_of_Restaurant r = JSObject
     [(''id'', JSString (id' r)),
      (''name'', JSString (name r)),
      (''country'', JSString (Country_value (country r))),
      (''city'', JSString (city r)),
      (''district'', JSString (district r)),
      (''description'', JSString (description' r)),
      (''coordinates'', js_of_Coordinates (coordinates r)),
      (''tags'', JSArray (map JSString (tags r))),
      (''originalImage'', JSString (originalImage r)),
      (''createdAt'', JSNumber (createdAt r))]"

definition js_of_Restaurants :: "Restaurant list \<Rightarrow> jsval" where
  "js_of_Restaurants rs = JSArray (map js_of_Restaurant rs)"

definition finite_numbers :: "Restaurant \<Rightarrow> bool" where
  "finite_numbers r \<longleftrightarrow>
     is_finite (lat (coordinates r)) \<and> is_finite (lng (coordinates r)) \<and> is_finite (createdAt r)"

section \<open>The application: state, effects and local storage (\<open>App.tsx\<close>)\<close>

definition STORAGE_KEY :: string where
  "STORAGE_KEY = ''gourmet_snap_data''"

text \<open>
  Local storage maps keys to strings. \<open>writes\<close> is the trace of the \<open>setItem\<close> calls, in
  order: the program cannot read it, the theorems about what is written can.
\<close>

record localStorage =
  entries :: "string \<rightharpoonup> jstext"
  writes :: "(string \<times> jstext) list"

definition getItem :: "localStorage \<Rightarrow> string \<Rightarrow> jstext option" where
  "getItem ls k = entries ls k"

text \<open>\<open>setItem\<close> stores the string of its argument; \<open>undefined\<close> (what \<open>JSON.stringify\<close>
  gives for \<open>undefined\<close>) becomes the string \<open>"undefined"\<close>, which is not JSON.\<close>

definition ToString :: "jstext option \<Rightarrow> jstext" where
  "ToString v = (case v of None \<Rightarrow> OtherText | Some t \<Rightarrow> t)"

definition setItem :: "string \<Rightarrow> jstext option \<Rightarrow> localStorage \<Rightarrow> localStorage" where
  "setItem k v ls =
     ls\<lparr>entries := (entries ls)(k \<mapsto> ToString v), writes := writes ls @ [(k, ToString v)]\<rparr>"

datatype view_mode = split_view | map_view | list_view

datatype tab = map_tab | list_tab

record app_state =
  restaurants :: jsval
  isModalOpen :: bool
  selectedRestaurant :: "jsval option"
  viewMode :: view_mode
  mobileTab :: tab

definition initial_state :: app_state where
  "initial_state =
     \<lparr>restaurants = JSArray [], isModalOpen = False, selectedRestaurant = None,
      viewMode = split_view, mobileTab = list_tab\<rparr>"

text \<open>The first effect (load data on mount): the argument of \<open>setRestaurants\<close>, when it
  is called.\<close>

definition load_effect :: "localStorage \<Rightarrow> jsval option" where
  "load_effect ls =
     (case getItem ls STORAGE_KEY of
        None \<Rightarrow> None
      | Some saved \<Rightarrow>
          if saved = EmptyText then None
          else (case JSON_parse saved of Inl e \<Rightarrow> None | Inr v \<Rightarrow> Some v))"

text \<open>The second effect (save data on change), run with the \<open>restaurants\<close> of the render
  it belongs to.\<close>

definition save_effect :: "jsval \<Rightarrow> localStorage \<Rightarrow> localStorage" where
  "save_effect rs ls = setItem STORAGE_KEY (JSON_stringify rs) ls"

definition handleResize :: "nat \<Rightarrow> view_mode" where
  "handleResize innerWidth = (if innerWidth < 768 then list_view else split_view)"

text \<open>
  Rendering. A state change makes React render the component tree again and then run
  the effects whose dependencies changed; if the render throws, the tree is unmounted
  and no effect of that render runs. Whether the tree renders a state is a matter of
  the child components and of React; the model takes it as the predicate \<open>renders\<close>.
  (The first render, of the initial state, succeeds: the list is empty and nothing is
  selected. For the list view, \<open>grouped\<close> below is the part of the render that can throw.)

  Mounting: the first render has the initial state. Its effects run in the order of the
  source: load (which schedules \<open>setRestaurants\<close>), save (which writes the first render's
  empty list), resize. If the load did set the state, the component renders again and,
  \<open>restaurants\<close> having changed, the save effect runs once more.
\<close>

definition mount ::
  "(app_state \<Rightarrow> bool) \<Rightarrow> nat \<Rightarrow> localStorage \<Rightarrow> exn + app_state \<times> localStorage" where
  "mount renders innerWidth ls =
     (let loaded = load_effect ls;
          ls1 = save_effect (restaurants initial_state) ls;
          s1 = initial_state\<lparr>viewMode := handleResize innerWidth\<rparr>
      in case loaded of
           None \<Rightarrow> Inr (s1, ls1)
         | Some v \<Rightarrow>
             if renders (s1\<lparr>restaurants := v\<rparr>)
             then Inr (s1\<lparr>restaurants := v\<rparr>, save_effect v ls1)
             else Inl RenderError)"

text \<open>The spread \<open>...prev\<close> in an array literal: the elements of an array, the characters
  of a string, and a \<open>TypeError\<close> for a value that is not iterable.\<close>

fun spread :: "jsval \<Rightarrow> exn + jsval list" where
  "spread (JSArray vs) = Inr vs"
| "spread (JSString s) = Inr (List.map (\<lambda>c. JSString [c]) s)"
| "spread v = Inl TypeError"

definition handleSaveRestaurant :: "jsval \<Rightarrow> app_state \<Rightarrow> exn + app_state" where
  "handleSaveRestaurant restaurant s =
     and_then (spread (restaurants s)) (\<lambda>prev.
       Inr (s\<lparr>restaurants := JSArray (restaurant # prev),
              selectedRestaurant := Some restaurant,
              mobileTab := map_tab\<rparr>))"

text \<open>
  What can happen to the mounted application: a place is saved (\<open>onSave\<close>), a restaurant is
  selected or the selection closed, the modal is opened or closed, the mobile tab is
  switched, the window is resized. Only \<open>Save\<close> changes \<open>restaurants\<close>, so only after it
  does the save effect run again. \<open>Save\<close> and \<open>Select\<close> change the data the tree shows.
\<close>

datatype event =
    Save jsval
  | Select "jsval option"
  | OpenModal
  | CloseModal
  | SwitchTab tab
  | Resize nat

fun step ::
  "(app_state \<Rightarrow> bool) \<Rightarrow> event \<Rightarrow> app_state \<times> localStorage \<Rightarrow> exn + app_state \<times> localStorage" where
  "step renders (Save r) (s, ls) =
     and_then (handleSaveRestaurant r s) (\<lambda>s'.
       if renders s' then Inr (s', save_effect (restaurants s') ls) else Inl RenderError)"
| "step renders (Select sel) (s, ls) =
     (if renders (s\<lparr>selectedRestaurant := sel\<rparr>) then Inr (s\<lparr>selectedRestaurant := sel\<rparr>, ls)
      else Inl RenderError)"
| "step renders OpenModal (s, ls) = Inr (s\<lparr>isModalOpen := True\<rparr>, ls)"
| "step renders CloseModal (s, ls) = Inr (s\<lparr>isModalOpen := False\<rparr>, ls)"
| "step renders (SwitchTab t) (s, ls) = Inr (s\<lparr>mobileTab := t\<rparr>, ls)"
| "step renders (Resize w) (s, ls) = Inr (s\<lparr>viewMode := handleResize w\<rparr>, ls)"

fun run ::
  "(app_state \<Rightarrow> bool) \<Rightarrow> event list \<Rightarrow> app_state \<times> localStorage \<Rightarrow> exn + app_state \<times> localStorage" where
  "run renders [] c = Inr c"
| "run renders (e # es) c = and_then (step renders e c) (run renders es)"

text \<open>Starting the application on a storage and letting the events happen.\<close>

definition session ::
  "(app_state \<Rightarrow> bool) \<Rightarrow> nat \<Rightarrow> event list \<Rightarrow> localStorage \<Rightarrow> exn + app_state \<times> localStorage" where
  "session renders innerWidth es ls = and_then (mount renders innerWidth ls) (run renders es)"

section \<open>The list view: grouping by country and city (\<open>RestaurantList.tsx\<close>)\<close>

text \<open>
  \<open>grouped\<close> is built from the object literal \<open>{}\<close>, used as a dictionary. Such an object
  inherits the properties of \<open>Object.prototype\<close>: reading \<open>g[k]\<close> for one of the names
  below finds a built-in function (for \<open>__proto__\<close>, the prototype object itself), which
  is truthy, though \<open>g\<close> has no own property \<open>k\<close>.
\<close>

definition Object_prototype_keys :: "string list" where
  "Object_prototype_keys =
     [''constructor'', ''__defineGetter__'', ''__defineSetter__'', ''hasOwnProperty'',
      ''__lookupGetter__'', ''__lookupSetter__'', ''isPrototypeOf'', ''propertyIsEnumerable'',
      ''toString'', ''valueOf'', ''__proto__'', ''toLocaleString'']"

datatype 'v lookup = Own 'v | Inherited | Absent

definition lookup :: "(string \<times> 'v) list \<Rightarrow> string \<Rightarrow> 'v lookup" where
  "lookup d k =
     (case map_of d k of
        Some v \<Rightarrow> Own v
      | None \<Rightarrow> if k \<in> set Object_prototype_keys then Inherited else Absent)"

type_synonym cities = "(string \<times> Restaurant list) list"
type_synonym groups = "(string \<times> cities) list"

text \<open>
  Lines 18 and 19 for one restaurant, on the dictionary of its country:
  \<open>if (!cs[r.city]) cs[r.city] = []; cs[r.city].push(r)\<close>. An own bucket is an array, which
  is truthy even when empty. An inherited value is truthy too, so nothing is stored, and
  it has no \<open>push\<close>: the call throws a \<open>TypeError\<close>.
\<close>

definition push_spot :: "Restaurant \<Rightarrow> cities \<Rightarrow> exn + cities" where
  "push_spot r cs =
     (case lookup cs (city r) of
        Absent \<Rightarrow> Inr (define_prop (city r) [r] cs)
      | Own spots \<Rightarrow> Inr (define_prop (city r) (spots @ [r]) cs)
      | Inherited \<Rightarrow> Inl TypeError)"

text \<open>
  The body of the \<open>forEach\<close>. When \<open>g[r.country]\<close> is inherited the code files the
  restaurant on the built-in it found and \<open>g\<close> keeps its own properties; none of the three
  values of \<open>Country\<close> is such a name, so that branch is never taken for a typed record.
\<close>

definition group_step :: "Restaurant \<Rightarrow> groups \<Rightarrow> exn + groups" where
  "group_step r g =
     (let c = Country_value (country r) in
      case lookup g c of
        Absent \<Rightarrow> and_then (push_spot r []) (\<lambda>cs. Inr (define_prop c cs g))
      | Own cs \<Rightarrow> and_then (push_spot r cs) (\<lambda>cs'. Inr (define_prop c cs' g))
      | Inherited \<Rightarrow> Inr g)"

fun forEach_group :: "Restaurant list \<Rightarrow> groups \<Rightarrow> exn + groups" where
  "forEach_group [] g = Inr g"
| "forEach_group (r # rs) g = and_then (group_step r g) (forEach_group rs)"

definition grouped :: "Restaurant list \<Rightarrow> exn + groups" where
  "grouped rs = forEach_group rs []"

text \<open>The cards rendered under the heading of a city, under the heading of a country.\<close>

definition bucket :: "groups \<Rightarrow> string \<Rightarrow> string \<Rightarrow> Restaurant list" where
  "bucket g c k =
     (case map_of g c of
        None \<Rightarrow> []
      | Some cs \<Rightarrow> (case map_of cs k of None \<Rightarrow> [] | Some spots \<Rightarrow> spots))"

definition belongs :: "string \<Rightarrow> string \<Rightarrow> Restaurant \<Rightarrow> bool" where
  "belongs c k r \<longleftrightarrow> Country_value (country r) = c \<and> city r = k"

section \<open>The map view: what the drawing effect appends (\<open>MapVisualization.tsx\<close>)\<close>

record dimensions =
  width :: nat
  height :: nat

text \<open>
  The settings of \<open>d3.geoMercator()\<close>. The projection itself is the library's: the model
  takes it as a function of the settings and of a point \<open>[lng, lat]\<close>, giving a point or
  \<open>null\<close>.
\<close>

record projection =
  center :: "real \<times> real"
  scale :: real
  translate :: "real \<times> real"

definition make_projection :: "dimensions \<Rightarrow> projection" where
  "make_projection dims =
     \<lparr>center = (135, 36),
      scale = (if width dims < 600 then 800 else 1600),
      translate = (real (width dims) / 2, real (height dims) / 2)\<rparr>"

type_synonym point = "jsnumber \<times> jsnumber"

text \<open>
  An element of the drawing: its tag, its class, where it is put (\<open>cx\<close> and \<open>cy\<close>, \<open>x\<close> and
  \<open>y\<close>, or a \<open>translate\<close> transform), the restaurant bound to it, and its children.
  Colours, fonts, opacity, text content and event handlers are left out.
\<close>

datatype position =
    unplaced
  | cx_cy jsnumber jsnumber
  | x_y jsnumber jsnumber
  | translated jsnumber jsnumber

datatype element = Element
  (tag: string)
  (class_name: string)
  (placed: position)
  (datum: "Restaurant option")
  (children: "element list")

text \<open>\<open>projection(p) || [0,0]\<close>, and \<open>projection(p)?.[0] || 0\<close> where \<open>0\<close> and \<open>NaN\<close> are falsy.\<close>

definition or_origin :: "point option \<Rightarrow> point" where
  "or_origin p = (case p of None \<Rightarrow> (Finite 0, Finite 0) | Some q \<Rightarrow> q)"

definition or_zero :: "jsnumber option \<Rightarrow> jsnumber" where
  "or_zero n = (case n of None \<Rightarrow> Finite 0 | Some x \<Rightarrow> if x = NaN \<or> x = Finite 0 then Finite 0 else x)"

definition countryLabels :: "(string \<times> real \<times> real) list" where
  "countryLabels = [(''SOUTH KOREA'', 36.5, 128), (''JAPAN'', 36.5, 139)]"

definition referencePoints :: "(string \<times> real \<times> real) list" where
  "referencePoints =
     [(''Seoul'', 37.5665, 126.9780), (''Busan'', 35.1796, 129.0756),
      (''Incheon'', 37.4563, 126.7052), (''Daegu'', 35.8714, 128.6014),
      (''Daejeon'', 36.3504, 127.3845), (''Gwangju'', 35.1595, 126.8526),
      (''Suwon'', 37.2636, 127.0286), (''Ulsan'', 35.5384, 129.3114),
      (''Jeju City'', 33.4996, 126.5312),
      (''Tokyo'', 35.6762, 139.6503), (''Osaka'', 34.6937, 135.5023),
      (''Yokohama'', 35.4437, 139.6380), (''Nagoya'', 35.1815, 136.9066),
      (''Sapporo'', 43.0618, 141.3545), (''Fukuoka'', 33.5902, 130.4017),
      (''Kobe'', 34.6901, 135.1955), (''Kyoto'', 35.0116, 135.7681),
      (''Hiroshima'', 34.3853, 132.4553), (''Sendai'', 38.2682, 140.8694)]"

definition label :: "(point \<Rightarrow> point option) \<Rightarrow> string \<Rightarrow> string \<times> real \<times> real \<Rightarrow> element" where
  "label proj cls d =
     (case d of (nm, la, lo) \<Rightarrow>
        Element ''text'' cls
          (x_y (or_zero (map_option fst (proj (Finite lo, Finite la))))
               (or_zero (map_option snd (proj (Finite lo, Finite la)))))
          None [])"

definition where_is :: "(point \<Rightarrow> point option) \<Rightarrow> Restaurant \<Rightarrow> point" where
  "where_is proj d = or_origin (proj (lng (coordinates d), lat (coordinates d)))"

definition ring :: "(point \<Rightarrow> point option) \<Rightarrow> Restaurant \<Rightarrow> element" where
  "ring proj s =
     Element ''circle'' '''' (cx_cy (fst (where_is proj s)) (snd (where_is proj s))) None
       [Element ''animate'' '''' unplaced None []]"

definition dot :: "Restaurant \<Rightarrow> element" where
  "dot d = Element ''circle'' ''restaurant'' unplaced (Some d) []"

definition place :: "(point \<Rightarrow> point option) \<Rightarrow> Restaurant \<Rightarrow> element" where
  "place proj d =
     Element ''g'' ''place-group cursor-pointer''
       (translated (fst (where_is proj d)) (snd (where_is proj d))) (Some d)
       [dot d,
        Element ''text'' ''place-label'' (x_y (Finite 0) (Finite (- 5))) (Some d) [],
        Element ''text'' ''district-label'' (x_y (Finite 0) (Finite 5)) (Some d) []]"

text \<open>
  The drawing effect. It returns at once (\<open>None\<close>: nothing is drawn) when the \<open>svg\<close>
  element is missing or the container is 0 wide, as it is on the first render. Otherwise
  it empties the \<open>svg\<close> and appends one group: the land (one path for each feature, once
  the topology is loaded), the country labels, the reference cities, and the group of the
  points, with the selection ring first when a restaurant is selected. \<open>rs\<close> and
  \<open>selected\<close> are the props \<open>restaurants\<close> and \<open>selectedRestaurant\<close>.
\<close>

definition draw ::
  "(projection \<Rightarrow> point \<Rightarrow> point option) \<Rightarrow> bool \<Rightarrow> dimensions \<Rightarrow> nat option \<Rightarrow>
   Restaurant list \<Rightarrow> Restaurant option \<Rightarrow> element list option" where
  "draw geoMercator svg dims geoData rs selected =
     (if \<not> svg \<or> width dims = 0 then None
      else
        let proj = geoMercator (make_projection dims);
            land = (case geoData of
                      None \<Rightarrow> []
                    | Some n \<Rightarrow> [Element ''g'' '''' unplaced None
                                  (replicate n (Element ''path'' '''' unplaced None []))]);
            pointsGroup = Element ''g'' '''' unplaced None
              ((case selected of None \<Rightarrow> [] | Some s \<Rightarrow> [ring proj s])
               @ List.map (place proj) rs)
        in Some [Element ''g'' '''' unplaced None
                   (land @ List.map (label proj ''country-label'') countryLabels
                    @ List.map (label proj ''city-ref'') referencePoints
                    @ [pointsGroup])])"

text \<open>The \<open>circle\<close> elements of a drawing, each with the placement of the element it is a
  child of (\<open>unplaced\<close> at the top).\<close>

fun circles :: "position \<Rightarrow> element \<Rightarrow> (position \<times> element) list"
  and circles_list :: "position \<Rightarrow> element list \<Rightarrow> (position \<times> element) list"
where
  "circles parent (Element t c p d ks) =
     (if t = ''circle'' then [(parent, Element t c p d ks)] else []) @ circles_list p ks"
| "circles_list parent [] = []"
| "circles_list parent (k # ks) = circles parent k @ circles_list parent ks"

definition drawn_circles :: "element list option \<Rightarrow> (position \<times> element) list" where
  "drawn_circles drawing = (case drawing of None \<Rightarrow> [] | Some es \<Rightarrow> circles_list unplaced es)"

section \<open>Invariants of the application\<close>

text \<open>\<open>only_key ls ls'\<close>: from \<open>ls\<close> to \<open>ls'\<close>, every \<open>setItem\<close> was on \<open>STORAGE_KEY\<close> and every other
  entry is as it was. \<open>persisted (s, ls)\<close>: the entry holds the JSON text of \<open>restaurants\<close>.\<close>

definition only_key :: "localStorage \<Rightarrow> localStorage \<Rightarrow> bool" where
  "only_key ls ls' \<longleftrightarrow>
     (\<exists>new. writes ls' = writes ls @ new \<and> (\<forall>kv\<in>set new. fst kv = STORAGE_KEY))
     \<and> (\<forall>k. k \<noteq> STORAGE_KEY \<longrightarrow> entries ls' k = entries ls k)"

definition persisted :: "app_state \<times> localStorage \<Rightarrow> bool" where
  "persisted c \<longleftrightarrow>
     (\<exists>d. to_json (restaurants (fst c)) = Some d \<and> entries (snd c) STORAGE_KEY = Some (JSONText d))"

text \<open>No bucket of \<open>g\<close> is filed under a name of \<open>Object.prototype\<close>.\<close>

definition own_cities_only :: "groups \<Rightarrow> bool" where
  "own_cities_only g \<longleftrightarrow>
     (\<forall>cs\<in>snd ` set g. \<forall>k\<in>fst ` set cs. k \<notin> set Object_prototype_keys)"

section \<open>Sample data\<close>

definition sample_reply :: json where
  "sample_reply = JObject
     [(''name'', JString ''Sushi Dai''), (''country'', JString ''Japan''),
      (''city'', JString ''Tokyo''), (''district'', JString ''Chuo''),
      (''lat'', JNumber 35.6655), (''lng'', JNumber 139.7707),
      (''description'', JString ''Fresh sushi at the market.''),
      (''tags'', JArray [JString ''Sushi'', JString ''Market'', JString ''Queue''])]"

definition sample_record :: jsval where
  "sample_record = JSObject
     [(''name'', JSString ''Sushi Dai''), (''country'', JSString ''Japan''),
      (''city'', JSString ''Tokyo''), (''district'', JSString ''Chuo''),
      (''description'', JSString ''Fresh sushi at the market.''),
      (''coordinates'', JSObject [(''lat'', JSNumber (Finite 35.6655)),
                                  (''lng'', JSNumber (Finite 139.7707))]),
      (''tags'', JSArray [JSString ''Sushi'', JSString ''Market'', JSString ''Queue''])]"

definition sample_restaurant :: Restaurant where
  "sample_restaurant =
     \<lparr>id' = ''7f9c'', name = ''Sushi Dai'', country = JP, city = ''Tokyo'', district = ''Chuo'',
      description' = ''Fresh sushi at the market.'',
      coordinates = \<lparr>lat = Finite 35.6655, lng = Finite 139.7707\<rparr>,
      tags = [''Sushi'', ''Market'', ''Queue''], originalImage = ''data:image/png;base64,QUJD'',
      createdAt = Finite 1700000000000\<rparr>"

definition infinite_restaurant :: Restaurant where
  "infinite_restaurant =
     sample_restaurant\<lparr>coordinates := \<lparr>lat = PosInfinity, lng = Finite 139.7707\<rparr>\<rparr>"

definition constructor_restaurant :: Restaurant where
  "constructor_restaurant = sample_restaurant\<lparr>city := ''constructor''\<rparr>"

definition empty_storage :: localStorage where
  "empty_storage = \<lparr>entries = Map.empty, writes = []\<rparr>"

text \<open>A tree that renders every state, and a stand-in for the library's projection that
  leaves a point where it is.\<close>

definition renders_all :: "app_state \<Rightarrow> bool" where
  "renders_all s = True"

definition flat_projection :: "projection \<Rightarrow> point \<Rightarrow> point option" where
  "flat_projection cfg p = Some p"

section \<open>Properties of \<open>analyzeImage\<close>\<close>

lemma extract_cases:
  "extract_record data =
     (if data = JSUndefined \<or> data = JSNull then Inl TypeError
      else Inr (JSObject
         [(''name'', projr (get_prop data ''name'')),
          (''country'', projr (get_prop data ''country'')),
          (''city'', projr (get_prop data ''city'')),
          (''district'', projr (get_prop data ''district'')),
          (''description'', projr (get_prop data ''description'')),
          (''coordinates'', JSObject [(''lat'', projr (get_prop data ''lat'')),
                                      (''lng'', projr (get_prop data ''lng''))]),
          (''tags'', projr (get_prop data ''tags''))]))"
  by (cases data) (simp_all add: extract_record_def and_then_def)

lemma try_block_Inr:
  "try_block rep = Inr r \<longleftrightarrow>
     (\<exists>d. rep = Response (Some (JSONText d)) \<and> extract_record (from_json d) = Inr r)"
proof (cases rep)
  case Rejects
  then show ?thesis by (simp add: try_block_def)
next
  case (Response jsonText)
  show ?thesis
  proof (cases jsonText)
    case None
    with Response show ?thesis by (simp add: try_block_def)
  next
    case (Some t)
    with Response show ?thesis
      by (cases t) (auto simp: try_block_def JSON_parse_def and_then_def)
  qed
qed

lemma analyzeImage_Inr:
  "fst (analyzeImage generateContent base64Image sent) = Inr r \<longleftrightarrow>
     try_block (generateContent (build_request base64Image)) = Inr r"
  by (simp add: analyzeImage_def send_def split: sum.splits)

text \<open>
  C1. Whenever \<open>analyzeImage\<close> returns, the endpoint answered with a JSON text, and the
  record returned has exactly the seven own properties \<open>name\<close>, \<open>country\<close>, \<open>city\<close>,
  \<open>district\<close>, \<open>description\<close>, \<open>coordinates\<close> and \<open>tags\<close>; \<open>coordinates\<close> is the object
  \<open>{lat, lng}\<close> built from \<open>data.lat\<close> and \<open>data.lng\<close>, every other property is the
  property of the same name of the parsed response, unchanged; \<open>id\<close>, \<open>originalImage\<close>
  and \<open>createdAt\<close> are not among its properties.
\<close>

theorem analyzeImage_returns_extracted_record:
  assumes "fst (analyzeImage generateContent base64Image sent) = Inr r"
  shows "\<exists>d c. generateContent (build_request base64Image) = Response (Some (JSONText d))
     \<and> own_keys r =
         [''name'', ''country'', ''city'', ''district'', ''description'', ''coordinates'', ''tags'']
     \<and> get_prop r ''name'' = get_prop (from_json d) ''name''
     \<and> get_prop r ''country'' = get_prop (from_json d) ''country''
     \<and> get_prop r ''city'' = get_prop (from_json d) ''city''
     \<and> get_prop r ''district'' = get_prop (from_json d) ''district''
     \<and> get_prop r ''description'' = get_prop (from_json d) ''description''
     \<and> get_prop r ''tags'' = get_prop (from_json d) ''tags''
     \<and> get_prop r ''coordinates'' = Inr c
     \<and> own_keys c = [''lat'', ''lng'']
     \<and> get_prop c ''lat'' = get_prop (from_json d) ''lat''
     \<and> get_prop c ''lng'' = get_prop (from_json d) ''lng''
     \<and> ''id'' \<notin> set (own_keys r)
     \<and> ''originalImage'' \<notin> set (own_keys r)
     \<and> ''createdAt'' \<notin> set (own_keys r)"
proof -
  from assms obtain d where
    rep: "generateContent (build_request base64Image) = Response (Some (JSONText d))"
    and ex: "extract_record (from_json d) = Inr r"
    unfolding analyzeImage_Inr try_block_Inr by blast
  from ex have ok: "from_json d \<noteq> JSUndefined" "from_json d \<noteq> JSNull"
    by (auto simp: extract_cases split: if_splits)
  have readable: "get_prop (from_json d) k = Inr (projr (get_prop (from_json d) k))" for k
    using ok by (cases "from_json d") simp_all
  from ex ok have r: "r = JSObject
         [(''name'', projr (get_prop (from_json d) ''name'')),
          (''country'', projr (get_prop (from_json d) ''country'')),
          (''city'', projr (get_prop (from_json d) ''city'')),
          (''district'', projr (get_prop (from_json d) ''district'')),
          (''description'', projr (get_prop (from_json d) ''description'')),
          (''coordinates'', JSObject [(''lat'', projr (get_prop (from_json d) ''lat'')),
                                      (''lng'', projr (get_prop (from_json d) ''lng''))]),
          (''tags'', projr (get_prop (from_json d) ''tags''))]"
    by (simp add: extract_cases)
  show ?thesis
    apply (rule exI [of _ d])
    apply (rule exI [of _ "JSObject [(''lat'', projr (get_prop (from_json d) ''lat'')),
                                      (''lng'', projr (get_prop (from_json d) ''lng''))]"])
    apply (simp add: rep r)
    apply (intro conjI; rule readable [symmetric])
    done
qed

lemma analyzeImage_sample:
  "fst (analyzeImage (\<lambda>req. Response (Some (JSONText sample_reply))) ''QUJD'' []) = Inr sample_record"
  by (simp add: analyzeImage_def send_def try_block_def JSON_parse_def extract_record_def
      and_then_def sample_reply_def sample_record_def)

theorem analyzeImage_returns_extracted_record_witness:
  "fst (analyzeImage (\<lambda>req. Response (Some (JSONText sample_reply))) ''QUJD'' []) = Inr sample_record
   \<and> own_keys sample_record =
       [''name'', ''country'', ''city'', ''district'', ''description'', ''coordinates'', ''tags'']
   \<and> get_prop sample_record ''name'' = get_prop (from_json sample_reply) ''name''
   \<and> ''id'' \<notin> set (own_keys sample_record)"
proof -
  from analyzeImage_returns_extracted_record [OF analyzeImage_sample]
  obtain d where "Response (Some (JSONText sample_reply)) = Response (Some (JSONText d))"
    and "own_keys sample_record =
       [''name'', ''country'', ''city'', ''district'', ''description'', ''coordinates'', ''tags'']"
    and "get_prop sample_record ''name'' = get_prop (from_json d) ''name''"
    and "''id'' \<notin> set (own_keys sample_record)"
    by blast
  then show ?thesis using analyzeImage_sample by simp
qed

text \<open>
  C2. The request built for any image carries the same configuration: the response MIME
  type \<open>application/json\<close> and the schema \<open>restaurantSchema\<close> (with the temperature 0.4);
  the schema requires exactly \<open>name\<close>, \<open>country\<close>, \<open>city\<close>, \<open>district\<close>, \<open>lat\<close>, \<open>lng\<close>,
  \<open>description\<close> and \<open>tags\<close>, and limits \<open>country\<close> to \<open>South Korea\<close>, \<open>Japan\<close>, \<open>Other\<close>.
  It is the configuration of the request \<open>analyzeImage\<close> sends.
\<close>

theorem request_config_is_fixed:
  "config (build_request base64Image) =
     \<lparr>responseMimeType = ''application/json'', responseSchema = restaurantSchema,
      temperature = 0.4\<rparr>
   \<and> config (build_request base64Image) = config (build_request otherImage)
   \<and> map config (snd (analyzeImage generateContent base64Image [])) =
       [\<lparr>responseMimeType = ''application/json'', responseSchema = restaurantSchema,
         temperature = 0.4\<rparr>]
   \<and> type restaurantSchema = OBJECT
   \<and> required restaurantSchema =
       [''name'', ''country'', ''city'', ''district'', ''lat'', ''lng'', ''description'', ''tags'']
   \<and> map fst (properties restaurantSchema) =
       [''name'', ''country'', ''city'', ''district'', ''description'', ''lat'', ''lng'', ''tags'']
   \<and> map_option enum (map_of (properties restaurantSchema) ''country'') =
       Some (Some [''South Korea'', ''Japan'', ''Other''])"
proof -
  have cfg: "config (build_request b) =
     \<lparr>responseMimeType = ''application/json'', responseSchema = restaurantSchema,
      temperature = 0.4\<rparr>" for b
    by (simp add: build_request_def)
  have sent: "snd (analyzeImage generateContent base64Image []) = [build_request base64Image]"
    by (simp add: analyzeImage_def send_def)
  have req: "required restaurantSchema =
       [''name'', ''country'', ''city'', ''district'', ''lat'', ''lng'', ''description'', ''tags'']"
    by (simp add: restaurantSchema_def)
  have props: "map fst (properties restaurantSchema) =
       [''name'', ''country'', ''city'', ''district'', ''description'', ''lat'', ''lng'', ''tags'']"
    by (simp add: restaurantSchema_def)
  have cty: "map_option enum (map_of (properties restaurantSchema) ''country'') =
       Some (Some [''South Korea'', ''Japan'', ''Other''])"
    by (simp add: restaurantSchema_def)
  have ty: "type restaurantSchema = OBJECT"
    by (simp add: restaurantSchema_def)
  show ?thesis
    unfolding sent using cfg req props cty ty by simp
qed

text \<open>
  C7. A call of \<open>analyzeImage\<close> adds exactly one request to those sent, the one built from
  its image, whatever the endpoint answers and whether the call returns or throws.
\<close>

theorem analyzeImage_sends_one_request:
  "snd (analyzeImage generateContent base64Image sent) = sent @ [build_request base64Image]
   \<and> length (snd (analyzeImage generateContent base64Image sent)) = length sent + 1"
  by (simp add: analyzeImage_def send_def)

text \<open>
  C9. When the request is rejected, or the response has no text (\<open>undefined\<close> or the empty
  string), or its text is not valid JSON, \<open>analyzeImage\<close> throws an \<open>Error\<close> with the message
  \<open>Failed to analyze image. Please try a clearer screenshot.\<close> and returns no record.
\<close>

theorem analyzeImage_fails_uniformly:
  assumes "generateContent (build_request base64Image) = rep"
    and "rep = Rejects \<or> rep = Response None \<or> rep = Response (Some EmptyText)
         \<or> rep = Response (Some OtherText)"
  shows "fst (analyzeImage generateContent base64Image sent) =
           Inl (Error ''Failed to analyze image. Please try a clearer screenshot.'')"
  using assms
  by (auto simp: analyzeImage_def send_def try_block_def JSON_parse_def and_then_def
      failure_message_def)

theorem analyzeImage_fails_uniformly_witness:
  "fst (analyzeImage (\<lambda>req. Response (Some OtherText)) ''QUJD'' []) =
     Inl (Error ''Failed to analyze image. Please try a clearer screenshot.'')
   \<and> fst (analyzeImage (\<lambda>req. Rejects) ''QUJD'' []) =
     Inl (Error ''Failed to analyze image. Please try a clearer screenshot.'')
   \<and> fst (analyzeImage (\<lambda>req. Response None) ''QUJD'' []) =
     Inl (Error ''Failed to analyze image. Please try a clearer screenshot.'')"
  using analyzeImage_fails_uniformly [of "\<lambda>req. Response (Some OtherText)" "''QUJD''" "Response (Some OtherText)" "[]"]
    analyzeImage_fails_uniformly [of "\<lambda>req. Rejects" "''QUJD''" Rejects "[]"]
    analyzeImage_fails_uniformly [of "\<lambda>req. Response None" "''QUJD''" "Response None" "[]"]
  by simp

text \<open>Every failure of \<open>analyzeImage\<close> is that one error, also the \<open>TypeError\<close> of reading a
  property of a response that parsed to \<open>null\<close>.\<close>

lemma analyzeImage_error_is_uniform:
  "fst (analyzeImage generateContent base64Image sent) = Inl e \<Longrightarrow> e = Error failure_message"
  by (simp add: analyzeImage_def send_def split: sum.splits)

text \<open>Nothing checks the response against the schema: a latitude literal too large for a
  double comes back as \<open>Infinity\<close>, in a record that is returned.\<close>

lemma analyzeImage_can_return_Infinity:
  "fst (analyzeImage (\<lambda>req. Response (Some (JSONText (JObject [(''lat'', JHugeNumber True)]))))
          base64Image sent) =
     Inr (JSObject
       [(''name'', JSUndefined), (''country'', JSUndefined), (''city'', JSUndefined),
        (''district'', JSUndefined), (''description'', JSUndefined),
        (''coordinates'', JSObject [(''lat'', JSNumber PosInfinity), (''lng'', JSUndefined)]),
        (''tags'', JSUndefined)])"
  by (simp add: analyzeImage_def send_def try_block_def JSON_parse_def extract_record_def
      and_then_def)

lemma analyzeImage_null_response:
  "fst (analyzeImage (\<lambda>req. Response (Some (JSONText JNull))) base64Image sent) =
     Inl (Error failure_message)"
  by (simp add: analyzeImage_def send_def try_block_def JSON_parse_def extract_record_def
      and_then_def)

section \<open>Properties of the application: persistence\<close>

lemma only_key_refl: "only_key ls ls"
  by (simp add: only_key_def)

lemma only_key_trans: "only_key a b \<Longrightarrow> only_key b c \<Longrightarrow> only_key a c"
  unfolding only_key_def
  apply (elim conjE exE)
  subgoal for new new'
    apply (rule conjI)
     apply (rule exI [of _ "new @ new'"])
     apply auto
    done
  done

lemma only_key_save: "only_key ls (save_effect v ls)"
  by (simp add: only_key_def save_effect_def setItem_def)

lemma from_json_defined: "from_json d \<noteq> JSUndefined"
  by (cases d) simp_all

lemma to_json_defined: "v \<noteq> JSUndefined \<Longrightarrow> \<exists>d. to_json v = Some d"
  by (cases v) simp_all

lemma persisted_save: "v \<noteq> JSUndefined \<Longrightarrow> persisted (s\<lparr>restaurants := v\<rparr>, save_effect v ls)"
  using to_json_defined [of v]
  by (auto simp: persisted_def save_effect_def setItem_def JSON_stringify_def ToString_def)

lemma load_effect_cases:
  "load_effect ls =
     (case getItem ls STORAGE_KEY of Some (JSONText d) \<Rightarrow> Some (from_json d) | _ \<Rightarrow> None)"
  by (simp add: load_effect_def JSON_parse_def split: option.splits jstext.splits)

lemma load_effect_defined: "load_effect ls = Some v \<Longrightarrow> v \<noteq> JSUndefined"
  by (auto simp: load_effect_cases from_json_defined split: option.splits jstext.splits)

lemma load_after_save:
  "load_effect (save_effect v ls) =
     (case to_json v of None \<Rightarrow> None | Some d \<Rightarrow> Some (from_json d))"
  by (simp add: load_effect_cases save_effect_def setItem_def getItem_def JSON_stringify_def
      ToString_def split: option.splits)

lemma mount_Inr:
  assumes "mount renders w ls = Inr (s, ls')"
  shows "restaurants s = (case load_effect ls of None \<Rightarrow> JSArray [] | Some v \<Rightarrow> v)"
    and "only_key ls ls'" and "persisted (s, ls')"
proof -
  show "restaurants s = (case load_effect ls of None \<Rightarrow> JSArray [] | Some v \<Rightarrow> v)"
    using assms by (auto simp: mount_def Let_def initial_state_def split: option.splits if_splits)
  show "only_key ls ls'"
    using assms
    by (auto simp: mount_def Let_def split: option.splits if_splits
        intro: only_key_save only_key_trans [OF only_key_save only_key_save])
  show "persisted (s, ls')"
  proof (cases "load_effect ls")
    case None
    have "persisted (initial_state\<lparr>viewMode := handleResize w\<rparr>\<lparr>restaurants := JSArray []\<rparr>,
            save_effect (JSArray []) ls)"
      by (rule persisted_save) simp
    with None assms show ?thesis by (auto simp: mount_def Let_def initial_state_def)
  next
    case (Some v)
    from persisted_save [OF load_effect_defined [OF Some]] Some assms show ?thesis
      by (auto simp: mount_def Let_def split: if_splits)
  qed
qed

text \<open>What mounting writes: the empty list of the first render, and then the loaded
  list, once, if the load set the state.\<close>

lemma mount_writes:
  "mount renders w ls = Inr (s, ls') \<Longrightarrow>
     writes ls' = writes ls
       @ (STORAGE_KEY, JSONText (JArray []))
       # (case load_effect ls of
            None \<Rightarrow> []
          | Some v \<Rightarrow> [(STORAGE_KEY, ToString (JSON_stringify v))])"
  by (auto simp: mount_def Let_def initial_state_def save_effect_def setItem_def
      JSON_stringify_def ToString_def split: option.splits if_splits)

lemma handleSaveRestaurant_Inr:
  "handleSaveRestaurant r s = Inr s' \<Longrightarrow>
     \<exists>prev. spread (restaurants s) = Inr prev \<and>
       s' = s\<lparr>restaurants := JSArray (r # prev), selectedRestaurant := Some r, mobileTab := map_tab\<rparr>"
  by (auto simp: handleSaveRestaurant_def and_then_def split: sum.splits)

lemma spread_changes: "spread v = Inr prev \<Longrightarrow> JSArray (r # prev) \<noteq> v"
  by (cases v) auto

lemma step_cases:
  assumes "step renders e (s, ls) = Inr (s2, ls2)"
  shows "(restaurants s2 = restaurants s \<and> ls2 = ls)
       \<or> (restaurants s2 \<noteq> restaurants s \<and> restaurants s2 \<noteq> JSUndefined
          \<and> ls2 = save_effect (restaurants s2) ls)"
proof (cases e)
  case (Save r)
  with assms obtain s' where h: "handleSaveRestaurant r s = Inr s'"
    and eq: "s2 = s'" "ls2 = save_effect (restaurants s') ls"
    by (auto simp: and_then_def split: sum.splits if_splits)
  from handleSaveRestaurant_Inr [OF h] obtain prev where
    "spread (restaurants s) = Inr prev" "restaurants s' = JSArray (r # prev)" by auto
  with spread_changes [of "restaurants s" prev r] eq show ?thesis by simp
qed (use assms in \<open>auto split: if_splits\<close>)

lemma step_only_key: "step renders e (s, ls) = Inr (s2, ls2) \<Longrightarrow> only_key ls ls2"
  using step_cases [of renders e s ls s2 ls2] by (auto intro: only_key_refl only_key_save)

lemma step_persisted:
  assumes "step renders e (s, ls) = Inr (s2, ls2)" and "persisted (s, ls)"
  shows "persisted (s2, ls2)"
proof -
  from step_cases [OF assms(1)] show ?thesis
  proof
    assume "restaurants s2 = restaurants s \<and> ls2 = ls"
    with assms(2) show ?thesis by (simp add: persisted_def)
  next
    assume h: "restaurants s2 \<noteq> restaurants s \<and> restaurants s2 \<noteq> JSUndefined
          \<and> ls2 = save_effect (restaurants s2) ls"
    then have "persisted (s2\<lparr>restaurants := restaurants s2\<rparr>, save_effect (restaurants s2) ls)"
      by (intro persisted_save) simp
    with h show ?thesis by simp
  qed
qed

lemma run_invariant:
  "run renders es (s, ls) = Inr (s', ls') \<Longrightarrow> persisted (s, ls) \<Longrightarrow> only_key ls0 ls \<Longrightarrow>
     persisted (s', ls') \<and> only_key ls0 ls'"
proof (induction es arbitrary: s ls)
  case Nil
  then show ?case by simp
next
  case (Cons e es)
  from Cons.prems(1) obtain s1 ls1 where st: "step renders e (s, ls) = Inr (s1, ls1)"
    and rest: "run renders es (s1, ls1) = Inr (s', ls')"
    by (auto simp: and_then_def split: sum.splits)
  from step_persisted [OF st Cons.prems(2)] have p: "persisted (s1, ls1)" .
  from only_key_trans [OF Cons.prems(3) step_only_key [OF st]] have k: "only_key ls0 ls1" .
  from Cons.IH [OF rest p k] show ?case .
qed

text \<open>
  C3. In every configuration the application reaches from a storage \<open>ls\<close> (mounting, then
  any events): every \<open>setItem\<close> since \<open>ls\<close> was on the key \<open>gourmet_snap_data\<close>; every other
  entry of the storage is as it was in \<open>ls\<close>; the entry under that key is the
  \<open>JSON.stringify\<close> of the whole \<open>restaurants\<close> state; and the next event writes exactly one
  more entry, under that key, the \<open>JSON.stringify\<close> of the new \<open>restaurants\<close>, when it
  changes \<open>restaurants\<close>, and writes nothing when it does not.
\<close>

theorem persistence_is_one_blob:
  assumes "session renders w es ls = Inr (s, ls')"
  shows "(\<exists>new. writes ls' = writes ls @ new \<and> (\<forall>kv\<in>set new. fst kv = ''gourmet_snap_data''))
    \<and> (\<forall>k. k \<noteq> ''gourmet_snap_data'' \<longrightarrow> entries ls' k = entries ls k)
    \<and> (\<exists>d. JSON_stringify (restaurants s) = Some (JSONText d)
          \<and> entries ls' ''gourmet_snap_data'' = Some (JSONText d))
    \<and> (\<forall>e s2 ls2. step renders e (s, ls') = Inr (s2, ls2) \<longrightarrow>
         (if restaurants s2 = restaurants s then writes ls2 = writes ls'
          else writes ls2 = writes ls' @
                 [(''gourmet_snap_data'', ToString (JSON_stringify (restaurants s2)))]))"
proof -
  from assms obtain s0 ls0 where m: "mount renders w ls = Inr (s0, ls0)"
    and r: "run renders es (s0, ls0) = Inr (s, ls')"
    by (auto simp: session_def and_then_def split: sum.splits)
  from run_invariant [OF r mount_Inr(3) [OF m] mount_Inr(2) [OF m]]
  have p: "persisted (s, ls')" and k: "only_key ls ls'" by simp_all
  have st: "if restaurants s2 = restaurants s then writes ls2 = writes ls'
          else writes ls2 = writes ls' @
                 [(''gourmet_snap_data'', ToString (JSON_stringify (restaurants s2)))]"
    if "step renders e (s, ls') = Inr (s2, ls2)" for e s2 ls2
    using step_cases [OF that] by (auto simp: save_effect_def setItem_def STORAGE_KEY_def)
  from p k st show ?thesis
    unfolding persisted_def only_key_def STORAGE_KEY_def JSON_stringify_def by auto
qed

lemma session_sample:
  "session renders_all 1024 [Save (JSString ''x'')] empty_storage =
     Inr (initial_state\<lparr>restaurants := JSArray [JSString ''x''],
            selectedRestaurant := Some (JSString ''x''), mobileTab := map_tab\<rparr>,
          \<lparr>entries = [''gourmet_snap_data'' \<mapsto> JSONText (JArray [JString ''x''])],
           writes = [(''gourmet_snap_data'', JSONText (JArray [])),
                     (''gourmet_snap_data'', JSONText (JArray [JString ''x'']))]\<rparr>)"
  by (simp add: session_def mount_def load_effect_def getItem_def empty_storage_def
      save_effect_def setItem_def JSON_stringify_def ToString_def initial_state_def
      handleResize_def handleSaveRestaurant_def and_then_def STORAGE_KEY_def renders_all_def)

theorem persistence_is_one_blob_witness:
  "session renders_all 1024 [Save (JSString ''x'')] empty_storage =
     Inr (initial_state\<lparr>restaurants := JSArray [JSString ''x''],
            selectedRestaurant := Some (JSString ''x''), mobileTab := map_tab\<rparr>,
          \<lparr>entries = [''gourmet_snap_data'' \<mapsto> JSONText (JArray [JString ''x''])],
           writes = [(''gourmet_snap_data'', JSONText (JArray [])),
                     (''gourmet_snap_data'', JSONText (JArray [JString ''x'']))]\<rparr>)
   \<and> JSON_stringify (JSArray [JSString ''x'']) = Some (JSONText (JArray [JString ''x'']))"
  using persistence_is_one_blob [OF session_sample] session_sample
  by (simp add: JSON_stringify_def)

section \<open>Properties of the application: reloading\<close>

lemma define_prop_new: "k \<notin> fst ` set acc \<Longrightarrow> define_prop k v acc = acc @ [(k, v)]"
  by (induction acc) auto

text \<open>\<open>JSON.parse (JSON.stringify v)\<close> is \<open>v\<close> for every value without \<open>undefined\<close> and
  without a number that is not finite.\<close>

lemma JSON_roundtrip:
  "json_clean v \<longrightarrow> (\<exists>d. to_json v = Some d \<and> from_json d = v)"
  "json_clean_list vs \<longrightarrow> from_json_list (to_json_list vs) = vs"
  "json_clean_props ps \<longrightarrow> (\<forall>acc. distinct (List.map fst acc @ List.map fst ps) \<longrightarrow>
       from_json_props (to_json_props ps) acc = acc @ ps)"
proof (induction v and vs and ps rule: to_json_to_json_list_to_json_props.induct)
  case (4 n)
  then show ?case by (cases n) simp_all
next
  case (7 ps)
  then show ?case by (auto dest: spec [of _ "[]"])
next
  case (9 v vs)
  then show ?case by auto
next
  case (11 p ps)
  show ?case
  proof (intro impI allI)
    fix acc :: "(string \<times> jsval) list"
    assume c: "json_clean_props (p # ps)"
      and d: "distinct (List.map fst acc @ List.map fst (p # ps))"
    from c 11 obtain j where j: "to_json (snd p) = Some j" "from_json j = snd p" by auto
    from d have new: "fst p \<notin> fst ` set acc" by auto
    from d have d': "distinct (List.map fst (acc @ [p]) @ List.map fst ps)" by auto
    from c 11 d' have "from_json_props (to_json_props ps) (acc @ [p]) = (acc @ [p]) @ ps"
      by auto
    with j new show "from_json_props (to_json_props (p # ps)) acc = acc @ p # ps"
      by (simp add: define_prop_new)
  qed
qed simp_all

lemma load_saved_clean:
  "json_clean v \<Longrightarrow> load_effect (save_effect v ls) = Some v"
  using JSON_roundtrip(1) [of v] by (auto simp: load_after_save)

lemma json_clean_strings: "json_clean_list (List.map JSString ts)"
  by (induction ts) simp_all

lemma json_clean_Restaurant: "json_clean (js_of_Restaurant r) \<longleftrightarrow> finite_numbers r"
  by (simp add: js_of_Restaurant_def js_of_Coordinates_def finite_numbers_def json_clean_strings)

lemma json_clean_Restaurants:
  "json_clean (js_of_Restaurants rs) \<longleftrightarrow> (\<forall>r\<in>set rs. finite_numbers r)"
  unfolding js_of_Restaurants_def by (induction rs) (simp_all add: json_clean_Restaurant)

text \<open>A restaurant with a number that is not finite is not read back as it was.\<close>

lemma to_json_Restaurant_Some: "\<exists>d. to_json (js_of_Restaurant r) = Some d"
  by (simp add: js_of_Restaurant_def)

lemma roundtrip_Restaurant_finite:
  "to_json (js_of_Restaurant r) = Some d \<Longrightarrow> from_json d = js_of_Restaurant r \<Longrightarrow>
     finite_numbers r"
  apply (cases "lat (coordinates r)"; cases "lng (coordinates r)"; cases "createdAt r")
  apply (auto simp: finite_numbers_def js_of_Restaurant_def js_of_Coordinates_def)
  done

lemma roundtrip_Restaurants_finite:
  "from_json_list (to_json_list (List.map js_of_Restaurant rs)) = List.map js_of_Restaurant rs
     \<Longrightarrow> \<forall>r\<in>set rs. finite_numbers r"
proof (induction rs)
  case Nil
  then show ?case by simp
next
  case (Cons r rs)
  from to_json_Restaurant_Some [of r] obtain d where d: "to_json (js_of_Restaurant r) = Some d"
    by blast
  with Cons.prems have "from_json d = js_of_Restaurant r"
    and "from_json_list (to_json_list (List.map js_of_Restaurant rs)) = List.map js_of_Restaurant rs"
    by simp_all
  with d Cons.IH roundtrip_Restaurant_finite [of r d] show ?case by simp
qed

lemma load_saved_Restaurants:
  "load_effect (save_effect (js_of_Restaurants rs) ls) = Some (js_of_Restaurants rs)
     \<longleftrightarrow> (\<forall>r\<in>set rs. finite_numbers r)"
proof
  assume "load_effect (save_effect (js_of_Restaurants rs) ls) = Some (js_of_Restaurants rs)"
  then have "from_json_list (to_json_list (List.map js_of_Restaurant rs)) =
      List.map js_of_Restaurant rs"
    by (simp add: load_after_save js_of_Restaurants_def)
  then show "\<forall>r\<in>set rs. finite_numbers r" by (rule roundtrip_Restaurants_finite)
next
  assume "\<forall>r\<in>set rs. finite_numbers r"
  then have "json_clean (js_of_Restaurants rs)" by (simp add: json_clean_Restaurants)
  then show "load_effect (save_effect (js_of_Restaurants rs) ls) = Some (js_of_Restaurants rs)"
    by (rule load_saved_clean)
qed

text \<open>
  C4, as the code has it. A list of restaurants is read back from the storage it was
  saved to as it was exactly when its numbers (\<open>coordinates.lat\<close>, \<open>coordinates.lng\<close>,
  \<open>createdAt\<close>) are all finite: then the load effect yields the same list and, when the tree
  renders it, mounting ends with \<open>restaurants\<close> equal to it.
\<close>

theorem reload_restores_finite_restaurants:
  "(load_effect (save_effect (js_of_Restaurants rs) ls) = Some (js_of_Restaurants rs)
      \<longleftrightarrow> (\<forall>r\<in>set rs. finite_numbers r))
   \<and> ((\<forall>r\<in>set rs. finite_numbers r)
        \<and> renders (initial_state\<lparr>viewMode := handleResize w, restaurants := js_of_Restaurants rs\<rparr>)
      \<longrightarrow> map_sum id (restaurants \<circ> fst)
            (mount renders w (save_effect (js_of_Restaurants rs) ls)) = Inr (js_of_Restaurants rs))"
  using load_saved_Restaurants [of rs ls]
  by (auto simp: mount_def Let_def)

theorem reload_restores_finite_restaurants_witness:
  "finite_numbers sample_restaurant
   \<and> load_effect (save_effect (js_of_Restaurants [sample_restaurant]) empty_storage)
       = Some (js_of_Restaurants [sample_restaurant])
   \<and> map_sum id (restaurants \<circ> fst)
        (mount renders_all 1024 (save_effect (js_of_Restaurants [sample_restaurant]) empty_storage))
       = Inr (js_of_Restaurants [sample_restaurant])"
proof -
  have fin: "\<forall>r\<in>set [sample_restaurant]. finite_numbers r"
    by (simp add: finite_numbers_def sample_restaurant_def)
  from reload_restores_finite_restaurants [of "[sample_restaurant]" empty_storage renders_all 1024] fin
  show ?thesis by (simp add: renders_all_def)
qed

text \<open>
  C4, as stated, fails: \<open>JSON.stringify\<close> writes \<open>Infinity\<close> (a \<open>number\<close>, so a well-typed
  latitude) as \<open>null\<close>, as it does \<open>NaN\<close>, and the list read back has \<open>null\<close> where the
  original has \<open>Infinity\<close>.
\<close>

theorem reload_loses_Infinity:
  "map_sum id (restaurants \<circ> fst)
     (mount renders_all 1024 (save_effect (js_of_Restaurants [infinite_restaurant]) empty_storage))
     \<noteq> Inr (js_of_Restaurants [infinite_restaurant])"
  by (simp add: mount_def Let_def load_after_save js_of_Restaurants_def js_of_Restaurant_def
      js_of_Coordinates_def infinite_restaurant_def sample_restaurant_def renders_all_def)

lemma reload_Infinity_is_null:
  "load_effect (save_effect (JSArray [JSObject [(''lat'', JSNumber PosInfinity)]]) ls) =
     Some (JSArray [JSObject [(''lat'', JSNull)]])"
  by (simp add: load_after_save)

text \<open>The same happens to a property that is \<open>undefined\<close>, as every property is that
  \<open>analyzeImage\<close> extracts from a response lacking it: the property is gone after a reload.\<close>

lemma reload_drops_undefined:
  "load_effect (save_effect (JSArray [JSObject [(''lat'', JSUndefined), (''lng'', JSNumber (Finite 1))]]) ls) =
     Some (JSArray [JSObject [(''lng'', JSNumber (Finite 1))]])"
  by (simp add: load_after_save)

section \<open>Properties of the application: saving and mounting\<close>

lemma run_saves:
  "restaurants s = JSArray prev \<Longrightarrow>
     (case run renders (List.map Save news) (s, ls) of
        Inl e \<Rightarrow> e = RenderError
      | Inr c \<Rightarrow> restaurants (fst c) = JSArray (rev news @ prev))"
proof (induction news arbitrary: s prev ls)
  case Nil
  then show ?case by simp
next
  case (Cons n news)
  define s' where
    "s' = s\<lparr>restaurants := JSArray (n # prev), selectedRestaurant := Some n, mobileTab := map_tab\<rparr>"
  have next_state: "restaurants s' = JSArray (n # prev)"
    by (simp add: s'_def)
  show ?case
  proof (cases "renders s'")
    case True
    then have eq: "run renders (List.map Save (n # news)) (s, ls) =
          run renders (List.map Save news) (s', save_effect (JSArray (n # prev)) ls)"
      using Cons.prems by (simp add: handleSaveRestaurant_def and_then_def s'_def)
    have "case run renders (List.map Save news) (s', save_effect (JSArray (n # prev)) ls) of
            Inl e \<Rightarrow> e = RenderError
          | Inr c \<Rightarrow> restaurants (fst c) = JSArray (rev (n # news) @ prev)"
      using Cons.IH [OF next_state, of "save_effect (JSArray (n # prev)) ls"]
      by (auto split: sum.splits)
    then show ?thesis by (simp only: eq)
  next
    case False
    then have eq: "run renders (List.map Save (n # news)) (s, ls) = Inl RenderError"
      using Cons.prems by (simp add: handleSaveRestaurant_def and_then_def s'_def)
    show ?thesis by (simp only: eq) simp
  qed
qed

text \<open>
  C8. On a state whose \<open>restaurants\<close> is a list, \<open>handleSaveRestaurant\<close> gives the state whose
  \<open>restaurants\<close> is the new restaurant followed by the previous list (and selects the new
  restaurant, on the map tab). So after saving \<open>news\<close> one by one the list is \<open>news\<close>
  reversed, newest first, followed by the previous list, unless a render failed on the way.
\<close>

theorem handleSaveRestaurant_prepends:
  "handleSaveRestaurant r (s\<lparr>restaurants := JSArray prev\<rparr>) =
     Inr (s\<lparr>restaurants := JSArray (r # prev), selectedRestaurant := Some r, mobileTab := map_tab\<rparr>)
   \<and> (case run renders (List.map Save news) (s\<lparr>restaurants := JSArray prev\<rparr>, ls) of
        Inl e \<Rightarrow> e = RenderError
      | Inr c \<Rightarrow> restaurants (fst c) = JSArray (rev news @ prev))"
  using run_saves [where s = "s\<lparr>restaurants := JSArray prev\<rparr>" and prev = prev
      and renders = renders and news = news and ls = ls]
  by (simp add: handleSaveRestaurant_def and_then_def)

text \<open>
  C10. When the storage has no entry under \<open>gourmet_snap_data\<close>, or an entry that is not
  valid JSON (the empty string included), mounting succeeds and \<open>restaurants\<close> is the empty
  list. Whenever mounting ends with \<open>restaurants\<close> other than the initial empty list, the
  entry was there and \<open>JSON.parse\<close> returned that value for it.
\<close>

theorem mount_tolerates_corrupted_storage:
  "(getItem ls ''gourmet_snap_data'' = None \<or> getItem ls ''gourmet_snap_data'' = Some EmptyText
      \<or> getItem ls ''gourmet_snap_data'' = Some OtherText
    \<longrightarrow> (\<exists>s ls'. mount renders w ls = Inr (s, ls') \<and> restaurants s = JSArray []))
   \<and> (\<forall>s ls'. mount renders w ls = Inr (s, ls') \<and> restaurants s \<noteq> restaurants initial_state
    \<longrightarrow> (\<exists>saved. getItem ls ''gourmet_snap_data'' = Some saved
           \<and> JSON_parse saved = Inr (restaurants s)))"
proof (intro conjI impI allI)
  assume "getItem ls ''gourmet_snap_data'' = None \<or> getItem ls ''gourmet_snap_data'' = Some EmptyText
      \<or> getItem ls ''gourmet_snap_data'' = Some OtherText"
  then have "load_effect ls = None"
    by (auto simp: load_effect_cases STORAGE_KEY_def)
  then show "\<exists>s ls'. mount renders w ls = Inr (s, ls') \<and> restaurants s = JSArray []"
    by (simp add: mount_def Let_def initial_state_def)
next
  fix s ls'
  assume "mount renders w ls = Inr (s, ls') \<and> restaurants s \<noteq> restaurants initial_state"
  with mount_Inr(1) [of renders w ls s ls']
  have "restaurants s = (case load_effect ls of None \<Rightarrow> JSArray [] | Some v \<Rightarrow> v)"
    and "restaurants s \<noteq> JSArray []"
    by (simp_all add: initial_state_def)
  then show "\<exists>saved. getItem ls ''gourmet_snap_data'' = Some saved
           \<and> JSON_parse saved = Inr (restaurants s)"
    by (auto simp: load_effect_cases STORAGE_KEY_def JSON_parse_def
        split: option.splits jstext.splits)
qed

theorem mount_tolerates_corrupted_storage_witness:
  "getItem \<lparr>entries = [''gourmet_snap_data'' \<mapsto> OtherText], writes = []\<rparr> ''gourmet_snap_data''
     = Some OtherText
   \<and> map_sum id (restaurants \<circ> fst)
       (mount renders_all 1024 \<lparr>entries = [''gourmet_snap_data'' \<mapsto> OtherText], writes = []\<rparr>)
     = Inr (JSArray [])
   \<and> map_sum id (restaurants \<circ> fst)
       (mount renders_all 1024
          \<lparr>entries = [''gourmet_snap_data'' \<mapsto> JSONText (JArray [JNull])], writes = []\<rparr>)
     = Inr (JSArray [JSNull])
   \<and> JSON_parse (JSONText (JArray [JNull])) = Inr (JSArray [JSNull])"
proof -
  let ?bad = "\<lparr>entries = [''gourmet_snap_data'' \<mapsto> OtherText], writes = []\<rparr>"
  let ?good = "\<lparr>entries = [''gourmet_snap_data'' \<mapsto> JSONText (JArray [JNull])], writes = []\<rparr>"
  have a: "getItem ?bad ''gourmet_snap_data'' = Some OtherText"
    by (simp add: getItem_def)
  from mount_tolerates_corrupted_storage [of ?bad renders_all 1024] a
  obtain s ls' where "mount renders_all 1024 ?bad = Inr (s, ls')" "restaurants s = JSArray []"
    by blast
  then have c: "map_sum id (restaurants \<circ> fst) (mount renders_all 1024 ?bad) = Inr (JSArray [])"
    by simp
  have d: "map_sum id (restaurants \<circ> fst) (mount renders_all 1024 ?good) = Inr (JSArray [JSNull])"
    by (simp add: mount_def Let_def load_effect_cases getItem_def STORAGE_KEY_def renders_all_def)
  have e: "JSON_parse (JSONText (JArray [JNull])) = Inr (JSArray [JSNull])"
    by (simp add: JSON_parse_def)
  from a c d e show ?thesis by simp
qed

section \<open>Properties of the list view\<close>

lemma map_of_define_prop: "map_of (define_prop k v ps) = (map_of ps)(k \<mapsto> v)"
  by (induction ps) (auto simp: fun_eq_iff)

lemma keys_define_prop: "fst ` set (define_prop k v ps) = insert k (fst ` set ps)"
  by (induction ps) auto

lemma values_define_prop: "snd ` set (define_prop k v ps) \<subseteq> insert v (snd ` set ps)"
  by (induction ps) auto

lemma Country_value_own: "Country_value c \<notin> set Object_prototype_keys"
  by (cases c) (simp_all add: Object_prototype_keys_def)

lemma push_spot_Inr:
  assumes "city r \<notin> set Object_prototype_keys"
  shows "\<exists>cs'. push_spot r cs = Inr cs' \<and>
     (\<forall>k. (case map_of cs' k of None \<Rightarrow> [] | Some spots \<Rightarrow> spots) =
          (case map_of cs k of None \<Rightarrow> [] | Some spots \<Rightarrow> spots)
          @ (if city r = k then [r] else []))"
  using assms
  by (auto simp: push_spot_def lookup_def map_of_define_prop split: option.splits)

lemma push_spot_keys:
  "push_spot r cs = Inr cs' \<Longrightarrow> fst ` set cs' = insert (city r) (fst ` set cs)"
proof -
  assume "push_spot r cs = Inr cs'"
  then obtain v where "cs' = define_prop (city r) v cs"
    by (auto simp: push_spot_def split: lookup.splits)
  then show ?thesis by (simp add: keys_define_prop)
qed

lemma group_step_Inr:
  assumes "city r \<notin> set Object_prototype_keys"
  shows "\<exists>g'. group_step r g = Inr g' \<and>
     (\<forall>c k. bucket g' c k = bucket g c k @ (if belongs c k r then [r] else []))"
proof (cases "map_of g (Country_value (country r))")
  case None
  from push_spot_Inr [OF assms, of "[]"] obtain cs' where
    p: "push_spot r [] = Inr cs'"
    and b: "\<And>k. (case map_of cs' k of None \<Rightarrow> [] | Some spots \<Rightarrow> spots) =
        (if city r = k then [r] else [])"
    by auto
  have "group_step r g = Inr (define_prop (Country_value (country r)) cs' g)"
    using None p by (simp add: group_step_def lookup_def Country_value_own and_then_def)
  moreover have "bucket (define_prop (Country_value (country r)) cs' g) c k =
       bucket g c k @ (if belongs c k r then [r] else [])" for c k
    using None b [of k] by (auto simp: bucket_def map_of_define_prop belongs_def)
  ultimately show ?thesis by blast
next
  case (Some cs)
  from push_spot_Inr [OF assms, of cs] obtain cs' where
    p: "push_spot r cs = Inr cs'"
    and b: "\<And>k. (case map_of cs' k of None \<Rightarrow> [] | Some spots \<Rightarrow> spots) =
        (case map_of cs k of None \<Rightarrow> [] | Some spots \<Rightarrow> spots)
        @ (if city r = k then [r] else [])"
    by auto
  have "group_step r g = Inr (define_prop (Country_value (country r)) cs' g)"
    using Some p by (simp add: group_step_def lookup_def and_then_def)
  moreover have "bucket (define_prop (Country_value (country r)) cs' g) c k =
       bucket g c k @ (if belongs c k r then [r] else [])" for c k
    using Some b [of k] by (auto simp: bucket_def map_of_define_prop belongs_def)
  ultimately show ?thesis by blast
qed

lemma forEach_group_Inr:
  "\<forall>r\<in>set rs. city r \<notin> set Object_prototype_keys \<Longrightarrow>
     \<exists>g'. forEach_group rs g = Inr g' \<and>
       (\<forall>c k. bucket g' c k = bucket g c k @ filter (belongs c k) rs)"
proof (induction rs arbitrary: g)
  case Nil
  then show ?case by simp
next
  case (Cons r rs)
  then have "city r \<notin> set Object_prototype_keys" by simp
  from group_step_Inr [OF this, of g] obtain g1 where
    s: "group_step r g = Inr g1"
    and b1: "\<And>c k. bucket g1 c k = bucket g c k @ (if belongs c k r then [r] else [])"
    by auto
  from Cons.IH [of g1] Cons.prems obtain g' where
    f: "forEach_group rs g1 = Inr g'"
    and b2: "\<And>c k. bucket g' c k = bucket g1 c k @ filter (belongs c k) rs"
    by auto
  have "forEach_group (r # rs) g = Inr g'"
    using s f by (simp add: and_then_def)
  moreover have "bucket g' c k = bucket g c k @ filter (belongs c k) (r # rs)" for c k
    by (simp add: b1 b2)
  ultimately show ?case by blast
qed

text \<open>
  What C5 says holds of every list in which no city is named like a property of
  \<open>Object.prototype\<close>: the grouping succeeds, and the bucket of a country and a city holds
  exactly the restaurants of that country and city, each as often as the list has it, in
  the order of the list. (A restaurant is then in the bucket of its own country and city
  and in no other.)
\<close>

lemma grouped_partitions:
  assumes "\<forall>r\<in>set rs. city r \<notin> set Object_prototype_keys"
  shows "\<exists>g. grouped rs = Inr g \<and> (\<forall>c k. bucket g c k = filter (belongs c k) rs)"
  using forEach_group_Inr [OF assms, of "[]"] by (simp add: grouped_def bucket_def)

text \<open>
  C5 fails on the code. For a restaurant whose city is \<open>constructor\<close>, \<open>g[r.country][r.city]\<close>
  is the inherited \<open>Object\<close> function: no bucket is created, \<open>push\<close> is not a function, and
  the grouping, so the render of the list, throws a \<open>TypeError\<close>.
\<close>

theorem grouped_throws_on_inherited_city:
  "grouped [constructor_restaurant] = Inl TypeError"
  by (simp add: grouped_def group_step_def push_spot_def lookup_def and_then_def
      Object_prototype_keys_def constructor_restaurant_def sample_restaurant_def)

text \<open>It is so for every list with such a city, wherever it stands in the list.\<close>

lemma group_step_inherited_city:
  assumes "city r \<in> set Object_prototype_keys" and "own_cities_only g"
  shows "group_step r g = Inl TypeError"
proof -
  have none: "map_of cs (city r) = None" if "cs \<in> snd ` set g" for cs
  proof -
    from assms that have "city r \<notin> fst ` set cs"
      unfolding own_cities_only_def by blast
    then show ?thesis by (simp add: map_of_eq_None_iff)
  qed
  show ?thesis
  proof (cases "map_of g (Country_value (country r))")
    case None
    with assms(1) show ?thesis
      by (simp add: group_step_def lookup_def Country_value_own push_spot_def and_then_def)
  next
    case (Some cs)
    then have "cs \<in> snd ` set g" by (force dest: map_of_SomeD)
    from none [OF this] Some assms(1) show ?thesis
      by (simp add: group_step_def lookup_def push_spot_def and_then_def)
  qed
qed

lemma group_step_own_cities_only:
  assumes "city r \<notin> set Object_prototype_keys" and "own_cities_only g"
    and "group_step r g = Inr g'"
  shows "own_cities_only g'"
proof -
  have "\<exists>cs cs'. (cs = [] \<or> cs \<in> snd ` set g) \<and> push_spot r cs = Inr cs'
      \<and> g' = define_prop (Country_value (country r)) cs' g"
  proof (cases "map_of g (Country_value (country r))")
    case None
    with assms(3) show ?thesis
      by (auto simp: group_step_def lookup_def Country_value_own and_then_def split: sum.splits)
  next
    case (Some cs)
    then have "cs \<in> snd ` set g" by (force dest: map_of_SomeD)
    with Some assms(3) show ?thesis
      by (auto simp: group_step_def lookup_def and_then_def split: sum.splits)
  qed
  then obtain cs cs' where cs: "cs = [] \<or> cs \<in> snd ` set g"
    and p: "push_spot r cs = Inr cs'"
    and g': "g' = define_prop (Country_value (country r)) cs' g"
    by blast
  from cs assms(2) have "\<forall>k\<in>fst ` set cs. k \<notin> set Object_prototype_keys"
    unfolding own_cities_only_def by auto
  with push_spot_keys [OF p] assms(1) have "\<forall>k\<in>fst ` set cs'. k \<notin> set Object_prototype_keys"
    by simp
  with assms(2) values_define_prop [of "Country_value (country r)" cs' g] show ?thesis
    unfolding own_cities_only_def g' by blast
qed

lemma forEach_group_throws:
  "\<exists>r\<in>set rs. city r \<in> set Object_prototype_keys \<Longrightarrow> own_cities_only g \<Longrightarrow>
     forEach_group rs g = Inl TypeError"
proof (induction rs arbitrary: g)
  case Nil
  then show ?case by simp
next
  case (Cons r rs)
  show ?case
  proof (cases "city r \<in> set Object_prototype_keys")
    case True
    from group_step_inherited_city [OF True Cons.prems(2)] show ?thesis
      by (simp add: and_then_def)
  next
    case False
    from group_step_Inr [OF False, of g] obtain g1 where s: "group_step r g = Inr g1" by auto
    from group_step_own_cities_only [OF False Cons.prems(2) s] have "own_cities_only g1" .
    moreover from False Cons.prems(1) have "\<exists>r\<in>set rs. city r \<in> set Object_prototype_keys"
      by auto
    ultimately have "forEach_group rs g1 = Inl TypeError" by (rule Cons.IH [rotated])
    with s show ?thesis by (simp add: and_then_def)
  qed
qed

lemma grouped_throws:
  "\<exists>r\<in>set rs. city r \<in> set Object_prototype_keys \<Longrightarrow> grouped rs = Inl TypeError"
  unfolding grouped_def by (rule forEach_group_throws) (simp_all add: own_cities_only_def)

section \<open>Properties of the map view\<close>

lemma circles_list_append:
  "circles_list p (xs @ ys) = circles_list p xs @ circles_list p ys"
  by (induction xs) simp_all

lemma circles_labels: "circles_list p (List.map (label proj cls) ds) = []"
  by (induction ds) (auto simp: label_def)

lemma circles_paths: "circles_list p (replicate n (Element ''path'' c q d [])) = []"
  by (induction n) simp_all

lemma circles_places:
  "circles_list p (List.map (place proj) rs) =
     List.map (\<lambda>d. (translated (fst (where_is proj d)) (snd (where_is proj d)), dot d)) rs"
  by (induction rs) (simp_all add: place_def dot_def)

lemma circles_ring: "circles p (ring proj s) = [(p, ring proj s)]"
  by (simp add: ring_def)

text \<open>
  C6, as the code has it. The projection is centered on \<open>[135, 36]\<close>. When the \<open>svg\<close> is
  there and the container is not 0 wide, the circles drawn are, in this order: the
  selection ring, if a restaurant is selected; then, for each restaurant of the list in
  order, one circle of class \<open>restaurant\<close>, bound to it, inside the group translated to the
  projection of its \<open>(lng, lat)\<close>, or to \<open>(0, 0)\<close> where the projection gives \<open>null\<close>.
  Otherwise the effect returns before drawing anything.
\<close>

theorem map_draws_one_dot_per_restaurant:
  "center (make_projection dims) = (135, 36)
   \<and> (if svg \<and> width dims \<noteq> 0
      then drawn_circles (draw geoMercator svg dims geoData rs selected) =
        (case selected of None \<Rightarrow> []
         | Some s \<Rightarrow> [(unplaced, ring (geoMercator (make_projection dims)) s)])
        @ List.map (\<lambda>d. (translated
               (fst (or_origin (geoMercator (make_projection dims)
                      (lng (coordinates d), lat (coordinates d)))))
               (snd (or_origin (geoMercator (make_projection dims)
                      (lng (coordinates d), lat (coordinates d))))),
             dot d)) rs
      else draw geoMercator svg dims geoData rs selected = None)"
proof (cases "svg \<and> width dims \<noteq> 0")
  case True
  then show ?thesis
    by (simp add: make_projection_def draw_def drawn_circles_def Let_def circles_list_append
        circles_labels circles_paths circles_places circles_ring where_is_def
        split: option.splits)
next
  case False
  then show ?thesis
    by (auto simp: make_projection_def draw_def)
qed

theorem map_draws_one_dot_per_restaurant_witness:
  "width \<lparr>width = 1024, height = 768\<rparr> \<noteq> 0
   \<and> drawn_circles (draw flat_projection True \<lparr>width = 1024, height = 768\<rparr> (Some 2)
        [sample_restaurant] None) =
       [(translated (Finite 139.7707) (Finite 35.6655), dot sample_restaurant)]
   \<and> draw flat_projection True \<lparr>width = 0, height = 0\<rparr> (Some 2) [sample_restaurant] None = None"
  using map_draws_one_dot_per_restaurant
    [of "\<lparr>width = 1024, height = 768\<rparr>" True flat_projection "Some 2" "[sample_restaurant]" None]
    map_draws_one_dot_per_restaurant
    [of "\<lparr>width = 0, height = 0\<rparr>" True flat_projection "Some 2" "[sample_restaurant]" None]
  by (simp add: or_origin_def sample_restaurant_def flat_projection_def)

text \<open>
  C6, as stated, fails twice. On the first render the container is 0 wide and no circle
  is drawn for a list of one restaurant; and with that restaurant selected, on a
  container 1024 wide, two circles are drawn for it, the ring and the dot.
\<close>

theorem map_circles_differ_from_restaurants:
  "length (drawn_circles (draw flat_projection True \<lparr>width = 0, height = 0\<rparr> None
       [sample_restaurant] None)) \<noteq> length [sample_restaurant]
   \<and> length (drawn_circles (draw flat_projection True \<lparr>width = 1024, height = 768\<rparr> None
       [sample_restaurant] (Some sample_restaurant))) \<noteq> length [sample_restaurant]"
  by (simp add: draw_def drawn_circles_def Let_def circles_list_append
      circles_labels place_def dot_def ring_def)

end
